theory Spec2Isabelle
  imports Main "HOL-Library.AList"
begin

section \<open>Python values, errors and optional arguments\<close>

text \<open>
  The values the client handles are what \<^verbatim>\<open>result.json()\<close> returns and what it puts into
  query parameters and JSON bodies: \<^verbatim>\<open>None\<close>, booleans, integers, strings, lists and
  dicts. A dict is an association list in insertion order; a key is looked up with
  \<open>map_of\<close> and stored with \<open>AList.update\<close>, which overwrites in place or appends,
  as a Python dict does. Numbers that are not integers are not represented: the client
  never computes with a number of a response.
\<close>

datatype pyval =
    PNone
  | PBool bool
  | PInt int
  | PStr string
  | PList "pyval list"
  | PDict "(string \<times> pyval) list"

text \<open>
  \<^verbatim>\<open>class Client_Exception(Exception): pass\<close> is the client's own exception class;
  \<open>Exception\<close> is Python's base class, which \<^verbatim>\<open>except Client_Exception\<close> does
  not catch. \<open>KeyError\<close> and \<open>TypeError\<close> come from subscripting and membership
  tests, \<open>JSONDecodeError\<close> from \<^verbatim>\<open>result.json()\<close> on a body that is not JSON.
\<close>

datatype error =
    Client_Exception string
  | Exception string
  | KeyError string
  | TypeError
  | JSONDecodeError

text \<open>
  A keyword argument with a default: the caller leaves it out, or passes a value.
  \<open>arg_or d a\<close> is the value the parameter is bound to when the default is \<open>d\<close>.
  A parameter annotated \<^verbatim>\<open>str = None\<close> or \<^verbatim>\<open>int = None\<close> holds an optional
  string or integer (\<open>None\<close> is Python's \<^verbatim>\<open>None\<close>).
\<close>

datatype 'a arg = Omitted | Passed 'a

fun arg_or :: "'a \<Rightarrow> 'a arg \<Rightarrow> 'a" where
  "arg_or d Omitted = d"
| "arg_or d (Passed v) = v"

fun str_val :: "string option \<Rightarrow> pyval" where
  "str_val None = PNone"
| "str_val (Some s) = PStr s"

fun int_val :: "int option \<Rightarrow> pyval" where
  "int_val None = PNone"
| "int_val (Some n) = PInt n"

definition list_val :: "string list \<Rightarrow> pyval" where
  "list_val xs = PList (map PStr xs)"

text \<open>Python's truth value of an object, as tested by \<^verbatim>\<open>if x:\<close>.\<close>

fun truthy :: "pyval \<Rightarrow> bool" where
  "truthy PNone = False"
| "truthy (PBool b) = b"
| "truthy (PInt n) = (n \<noteq> 0)"
| "truthy (PStr s) = (s \<noteq> [])"
| "truthy (PList xs) = (xs \<noteq> [])"
| "truthy (PDict kvs) = (kvs \<noteq> [])"

text \<open>\<^verbatim>\<open>str(x)\<close> of an optional string, as an f-string formats it.\<close>

fun py_str :: "string option \<Rightarrow> string" where
  "py_str None = ''None''"
| "py_str (Some s) = s"

text \<open>\<^verbatim>\<open>s.rstrip(chars)\<close>: drop every trailing character that is in \<open>chars\<close>.\<close>

definition rstrip :: "string \<Rightarrow> string \<Rightarrow> string" where
  "rstrip s chars = rev (dropWhile (\<lambda>c. c \<in> set chars) (rev s))"

text \<open>\<^verbatim>\<open>x[key]\<close> with a string key.\<close>

fun py_getitem :: "pyval \<Rightarrow> string \<Rightarrow> error + pyval" where
  "py_getitem (PDict kvs) k =
     (case map_of kvs k of None \<Rightarrow> Inl (KeyError k) | Some v \<Rightarrow> Inr v)"
| "py_getitem v k = Inl TypeError"

text \<open>
  \<^verbatim>\<open>key in x\<close> with a string key: a key of a dict, an element of a list, a substring
  of a string; on anything else Python raises TypeError.
\<close>

fun is_prefix :: "string \<Rightarrow> string \<Rightarrow> bool" where
  "is_prefix [] ys = True"
| "is_prefix (x # xs) [] = False"
| "is_prefix (x # xs) (y # ys) = (x = y \<and> is_prefix xs ys)"

fun is_substring :: "string \<Rightarrow> string \<Rightarrow> bool" where
  "is_substring s [] = (s = [])"
| "is_substring s (c # cs) = (is_prefix s (c # cs) \<or> is_substring s cs)"

fun py_in :: "string \<Rightarrow> pyval \<Rightarrow> error + bool" where
  "py_in k (PDict kvs) = Inr (k \<in> set (map fst kvs))"
| "py_in k (PList xs) = Inr (PStr k \<in> set xs)"
| "py_in k (PStr s) = Inr (is_substring k s)"
| "py_in k v = Inl TypeError"

text \<open>Iterating a value in a comprehension: a list gives its elements, a dict its
  keys, a string its characters; anything else is not iterable.\<close>

fun py_iter :: "pyval \<Rightarrow> error + pyval list" where
  "py_iter (PList xs) = Inr xs"
| "py_iter (PDict kvs) = Inr (map (\<lambda>kv. PStr (fst kv)) kvs)"
| "py_iter (PStr s) = Inr (map (\<lambda>c. PStr [c]) s)"
| "py_iter v = Inl TypeError"

text \<open>
  \<^verbatim>\<open>[x for x in xs if cond(x)]\<close> where the condition may raise: the first exception,
  in list order, ends the comprehension.
\<close>

fun filter_raise :: "('a \<Rightarrow> error + bool) \<Rightarrow> 'a list \<Rightarrow> error + 'a list" where
  "filter_raise cond [] = Inr []"
| "filter_raise cond (x # xs) =
     (case cond x of
        Inl e \<Rightarrow> Inl e
      | Inr b \<Rightarrow>
          (case filter_raise cond xs of
             Inl e \<Rightarrow> Inl e
           | Inr ys \<Rightarrow> Inr (if b then x # ys else ys)))"

definition comprehension :: "(pyval \<Rightarrow> error + bool) \<Rightarrow> pyval \<Rightarrow> error + pyval" where
  "comprehension cond v =
     (case py_iter v of
        Inl e \<Rightarrow> Inl e
      | Inr xs \<Rightarrow>
          (case filter_raise cond xs of Inl e \<Rightarrow> Inl e | Inr ys \<Rightarrow> Inr (PList ys)))"

section \<open>Requests and responses\<close>

text \<open>
  What \<^verbatim>\<open>session.get\<close> and \<^verbatim>\<open>session.post\<close> are called with. The value of the
  authorization header is \<^verbatim>\<open>'Bearer {}'.format(token)\<close>; it is kept as the format
  applied to the token, since the token is whatever value the server sent.
\<close>

datatype http_method = GET | POST

datatype header_value = Bearer pyval | Header_str string

record request =
  req_method :: http_method
  req_url :: string
  req_headers :: "(string \<times> header_value) list"
  req_params :: "(string \<times> pyval) list"
  req_json :: "pyval option"
  req_data :: "(string \<times> string) list"
  req_auth :: "(string \<times> string) option"

text \<open>
  A response: its status code, and its body as \<^verbatim>\<open>result.json()\<close> parses it
  (\<open>None\<close> when the body is not valid JSON and the call raises). The functions below
  take the HTTP session as a function \<open>send\<close> from the request to the response the
  server gives; a request that gets no response (a transport failure) is outside the
  model.
\<close>

record response =
  status_code :: int
  json_body :: "pyval option"

definition json :: "response \<Rightarrow> error + pyval" where
  "json result = (case json_body result of None \<Rightarrow> Inl JSONDecodeError | Some v \<Rightarrow> Inr v)"

definition session_get ::
  "string \<Rightarrow> (string \<times> header_value) list \<Rightarrow> (string \<times> pyval) list \<Rightarrow> request" where
  "session_get u headers params =
     \<lparr>req_method = GET, req_url = u, req_headers = headers, req_params = params,
      req_json = None, req_data = [], req_auth = None\<rparr>"

definition session_post_json ::
  "string \<Rightarrow> (string \<times> header_value) list \<Rightarrow> pyval \<Rightarrow> request" where
  "session_post_json u headers body =
     \<lparr>req_method = POST, req_url = u, req_headers = headers, req_params = [],
      req_json = Some body, req_data = [], req_auth = None\<rparr>"

text \<open>A server that answers every request with the same response.\<close>

definition mock_server :: "response \<Rightarrow> request \<Rightarrow> response" where
  "mock_server r q = r"

section \<open>The client\<close>

record Client =
  self_url :: string
  self_customer_id :: "string option"
  self_token :: pyval

definition authenticate_request :: "string \<Rightarrow> string \<Rightarrow> string \<Rightarrow> request" where
  "authenticate_request u client_id client_secret =
     \<lparr>req_method = POST, req_url = rstrip u ''/'' @ ''/v1/authenticate'', req_headers = [],
      req_params = [], req_json = None,
      req_data = [(''grant_type'', ''client_credentials'')],
      req_auth = Some (client_id, client_secret)\<rparr>"

definition Client_init ::
  "(request \<Rightarrow> response) \<Rightarrow> string \<Rightarrow> string \<Rightarrow> string \<Rightarrow> string option arg
     \<Rightarrow> error + Client" where
  "Client_init send u client_id client_secret customer_id_arg =
     (let customer_id = arg_or None customer_id_arg;
          result = send (authenticate_request u client_id client_secret)
      in if status_code result = 200 then
           (case json result of
              Inl e \<Rightarrow> Inl e
            | Inr body \<Rightarrow>
                (case py_getitem body ''access_token'' of
                   Inl e \<Rightarrow> Inl e
                 | Inr t \<Rightarrow>
                     Inr \<lparr>self_url = rstrip u ''/'', self_customer_id = customer_id,
                          self_token = t\<rparr>))
         else Inl (Client_Exception ''Unable to authenticate to API''))"

definition get_headers :: "Client \<Rightarrow> (string \<times> header_value) list" where
  "get_headers self =
     (let headers = [(''authorization'', Bearer (self_token self))]
      in if truthy (str_val (self_customer_id self))
         then AList.update ''x-sotaog-customer-id''
                (Header_str (py_str (self_customer_id self))) headers
         else headers)"

section \<open>Read operations\<close>

text \<open>
  Each method is given as the request it hands to the session and as the method itself,
  which sends that request and handles the response.
\<close>

definition get_alarm_services_request :: "Client \<Rightarrow> request" where
  "get_alarm_services_request self =
     session_get (self_url self @ ''/v1/alarm-services'') (get_headers self) []"

definition get_alarm_services :: "(request \<Rightarrow> response) \<Rightarrow> Client \<Rightarrow> error + pyval" where
  "get_alarm_services send self =
     (let result = send (get_alarm_services_request self)
      in if status_code result = 200 then json result
         else Inl (Client_Exception ''Unable to retrieve alarm services''))"

definition get_alarm_service_request :: "Client \<Rightarrow> string \<Rightarrow> request" where
  "get_alarm_service_request self alarm_service_id =
     session_get (self_url self @ ''/v1/alarm-services/'' @ alarm_service_id)
       (get_headers self) []"

definition get_alarm_service ::
  "(request \<Rightarrow> response) \<Rightarrow> Client \<Rightarrow> string \<Rightarrow> error + pyval" where
  "get_alarm_service send self alarm_service_id =
     (let result = send (get_alarm_service_request self alarm_service_id)
      in if status_code result = 200 then json result
         else Inl (Client_Exception (''Unable to retrieve alarm service '' @ alarm_service_id)))"

definition get_alarms_request :: "Client \<Rightarrow> request" where
  "get_alarms_request self =
     session_get (self_url self @ ''/v1/alarms'') (get_headers self) []"

definition get_alarms :: "(request \<Rightarrow> response) \<Rightarrow> Client \<Rightarrow> error + pyval" where
  "get_alarms send self =
     (let result = send (get_alarms_request self)
      in if status_code result = 200 then json result
         else Inl (Client_Exception ''Unable to retrieve alarms''))"

definition get_alarm_request :: "Client \<Rightarrow> string \<Rightarrow> string option arg \<Rightarrow> request" where
  "get_alarm_request self asset_id datatype_arg =
     (let datatype = arg_or None datatype_arg;
          u = self_url self @ ''/v1/alarms/'' @ asset_id;
          u = (if truthy (str_val datatype) then u @ ''/'' @ py_str datatype else u)
      in session_get u (get_headers self) [])"

definition get_alarm ::
  "(request \<Rightarrow> response) \<Rightarrow> Client \<Rightarrow> string \<Rightarrow> string option arg \<Rightarrow> error + pyval" where
  "get_alarm send self asset_id datatype_arg =
     (let result = send (get_alarm_request self asset_id datatype_arg)
      in if status_code result = 200 then json result
         else Inl (Client_Exception (''Unable to retrieve alarms for '' @ asset_id)))"

definition get_facilities_request :: "Client \<Rightarrow> request" where
  "get_facilities_request self =
     session_get (self_url self @ ''/v1/facilities'') (get_headers self) []"

definition get_facilities :: "(request \<Rightarrow> response) \<Rightarrow> Client \<Rightarrow> error + pyval" where
  "get_facilities send self =
     (let result = send (get_facilities_request self)
      in if status_code result = 200 then json result
         else Inl (Client_Exception ''Unable to retrieve facilities''))"

definition get_facility_request :: "Client \<Rightarrow> string \<Rightarrow> request" where
  "get_facility_request self facility_id =
     session_get (self_url self @ ''/v1/facilities/'' @ facility_id) (get_headers self) []"

definition get_facility ::
  "(request \<Rightarrow> response) \<Rightarrow> Client \<Rightarrow> string \<Rightarrow> error + pyval" where
  "get_facility send self facility_id =
     (let result = send (get_facility_request self facility_id)
      in if status_code result = 200 then json result
         else Inl (Client_Exception (''Unable to retrieve facility '' @ facility_id)))"

definition get_asset_request :: "Client \<Rightarrow> string \<Rightarrow> string arg \<Rightarrow> request" where
  "get_asset_request self asset_id type_arg =
     (let type' = arg_or ''assets'' type_arg
      in session_get (self_url self @ ''/v1/'' @ type' @ ''/'' @ asset_id)
           (get_headers self) [])"

definition get_asset ::
  "(request \<Rightarrow> response) \<Rightarrow> Client \<Rightarrow> string \<Rightarrow> string arg \<Rightarrow> error + pyval" where
  "get_asset send self asset_id type_arg =
     (let type' = arg_or ''assets'' type_arg;
          result = send (get_asset_request self asset_id type_arg)
      in if status_code result = 200 then json result
         else Inl (Client_Exception
                (''Unable to retrieve asset '' @ asset_id @ '' of type '' @ type')))"

text \<open>
  The condition of the comprehensions of \<^verbatim>\<open>get_assets\<close>:
  \<^verbatim>\<open>'facility' in asset and asset['facility'] == facility\<close>, with a string on the right
  of \<^verbatim>\<open>==\<close> (the comprehension runs only when the argument is truthy). \<^verbatim>\<open>and\<close>
  does not evaluate its second operand when the first is false.
\<close>

definition field_is :: "string \<Rightarrow> string \<Rightarrow> pyval \<Rightarrow> error + bool" where
  "field_is k v asset =
     (case py_in k asset of
        Inl e \<Rightarrow> Inl e
      | Inr False \<Rightarrow> Inr False
      | Inr True \<Rightarrow>
          (case py_getitem asset k of Inl e \<Rightarrow> Inl e | Inr x \<Rightarrow> Inr (x = PStr v)))"

definition get_assets_request :: "Client \<Rightarrow> string arg \<Rightarrow> request" where
  "get_assets_request self type_arg =
     (let type' = arg_or ''assets'' type_arg
      in session_get (self_url self @ ''/v1/'' @ type') (get_headers self) [])"

definition get_assets ::
  "(request \<Rightarrow> response) \<Rightarrow> Client \<Rightarrow> string arg \<Rightarrow> string option arg \<Rightarrow> string option arg
     \<Rightarrow> error + pyval" where
  "get_assets send self type_arg facility_arg asset_type_arg =
     (let facility = arg_or None facility_arg;
          asset_type = arg_or None asset_type_arg;
          result = send (get_assets_request self type_arg)
      in if status_code result = 200 then
           (case json result of
              Inl e \<Rightarrow> Inl e
            | Inr assets \<Rightarrow>
                (case (if truthy (str_val facility)
                       then comprehension (field_is ''facility'' (py_str facility)) assets
                       else Inr assets) of
                   Inl e \<Rightarrow> Inl e
                 | Inr assets \<Rightarrow>
                     (if truthy (str_val asset_type)
                      then comprehension (field_is ''asset_type'' (py_str asset_type)) assets
                      else Inr assets)))
         else Inl (Client_Exception
                (''Unable to retrieve assets of type '' @ py_str asset_type)))"

text \<open>
  In \<^verbatim>\<open>get_datatypes\<close> the statement \<^verbatim>\<open>params['group_by']: group_by\<close> is an annotation
  without a value: it assigns nothing, and at function scope the annotation is not even
  evaluated. \<open>params\<close> stays the empty dict on both branches of the test.
\<close>

definition get_datatypes_request :: "Client \<Rightarrow> string option arg \<Rightarrow> request" where
  "get_datatypes_request self group_by_arg =
     (let group_by = arg_or (Some ''asset'') group_by_arg;
          params = [];
          params = (if truthy (str_val group_by) then params else params)
      in session_get (self_url self @ ''/v1/datatypes'') (get_headers self) params)"

definition get_datatypes ::
  "(request \<Rightarrow> response) \<Rightarrow> Client \<Rightarrow> string option arg \<Rightarrow> error + pyval" where
  "get_datatypes send self group_by_arg =
     (let result = send (get_datatypes_request self group_by_arg)
      in if status_code result = 200 then json result
         else Inl (Client_Exception ''Unable to get datatypes''))"

definition get_datatype_request :: "Client \<Rightarrow> string \<Rightarrow> request" where
  "get_datatype_request self datatype_id =
     (let params = [(''group_by'', PStr ''asset'')]
      in session_get (self_url self @ ''/v1/datatypes/'' @ datatype_id) (get_headers self)
           params)"

definition get_datatype ::
  "(request \<Rightarrow> response) \<Rightarrow> Client \<Rightarrow> string \<Rightarrow> error + pyval" where
  "get_datatype send self datatype_id =
     (let result = send (get_datatype_request self datatype_id)
      in if status_code result = 200 then json result
         else Inl (Client_Exception (''Unable to get datatype '' @ datatype_id)))"

definition get_datapoints_body ::
  "pyval \<Rightarrow> int option arg \<Rightarrow> int option arg \<Rightarrow> string option arg \<Rightarrow> int option arg
     \<Rightarrow> (string \<times> pyval) list" where
  "get_datapoints_body asset_datatypes start_ts_arg end_ts_arg sort_arg limit_arg =
     (let start_ts = arg_or None start_ts_arg;
          end_ts = arg_or None end_ts_arg;
          sort = arg_or (Some ''desc'') sort_arg;
          limit = arg_or (Some 100) limit_arg;
          body = [(''asset_datatypes'', asset_datatypes)];
          body = (if truthy (int_val start_ts)
                  then AList.update ''start_ts'' (int_val start_ts) body else body);
          body = (if truthy (int_val end_ts)
                  then AList.update ''end_ts'' (int_val end_ts) body else body);
          body = (if truthy (str_val sort)
                  then AList.update ''sort'' (str_val sort) body else body);
          body = (if truthy (int_val limit)
                  then AList.update ''limit'' (int_val limit) body else body)
      in body)"

definition get_datapoints_request ::
  "Client \<Rightarrow> pyval \<Rightarrow> int option arg \<Rightarrow> int option arg \<Rightarrow> string option arg
     \<Rightarrow> int option arg \<Rightarrow> request" where
  "get_datapoints_request self asset_datatypes start_ts_arg end_ts_arg sort_arg limit_arg =
     session_post_json (self_url self @ ''/v1/datapoints'') (get_headers self)
       (PDict (get_datapoints_body asset_datatypes start_ts_arg end_ts_arg sort_arg limit_arg))"

text \<open>
  On a status other than 200, \<^verbatim>\<open>get_datapoints\<close> first evaluates
  \<^verbatim>\<open>logger.debug(result.json())\<close>, whose argument raises when the body is not JSON.
\<close>

definition get_datapoints ::
  "(request \<Rightarrow> response) \<Rightarrow> Client \<Rightarrow> pyval \<Rightarrow> int option arg \<Rightarrow> int option arg
     \<Rightarrow> string option arg \<Rightarrow> int option arg \<Rightarrow> error + pyval" where
  "get_datapoints send self asset_datatypes start_ts_arg end_ts_arg sort_arg limit_arg =
     (let result = send (get_datapoints_request self asset_datatypes start_ts_arg end_ts_arg
                           sort_arg limit_arg)
      in if status_code result = 200 then json result
         else (case json result of
                 Inl e \<Rightarrow> Inl e
               | Inr logged \<Rightarrow> Inl (Client_Exception ''Unable to get datapoints'')))"

definition get_asset_datapoints_params ::
  "string list arg \<Rightarrow> int option arg \<Rightarrow> int option arg \<Rightarrow> string option arg
     \<Rightarrow> int option arg \<Rightarrow> (string \<times> pyval) list" where
  "get_asset_datapoints_params datatypes_arg start_ts_arg end_ts_arg sort_arg limit_arg =
     (let datatypes = arg_or [] datatypes_arg;
          start_ts = arg_or None start_ts_arg;
          end_ts = arg_or None end_ts_arg;
          sort = arg_or (Some ''desc'') sort_arg;
          limit = arg_or (Some 100) limit_arg;
          params = [];
          params = (if truthy (list_val datatypes)
                    then AList.update ''datatypes'' (list_val datatypes) params else params);
          params = (if truthy (int_val start_ts)
                    then AList.update ''start_ts'' (int_val start_ts) params else params);
          params = (if truthy (int_val end_ts)
                    then AList.update ''end_ts'' (int_val end_ts) params else params);
          params = (if truthy (str_val sort)
                    then AList.update ''sort'' (str_val sort) params else params);
          params = (if truthy (int_val limit)
                    then AList.update ''limit'' (int_val limit) params else params)
      in params)"

definition get_asset_datapoints_request ::
  "Client \<Rightarrow> string \<Rightarrow> string list arg \<Rightarrow> int option arg \<Rightarrow> int option arg
     \<Rightarrow> string option arg \<Rightarrow> int option arg \<Rightarrow> request" where
  "get_asset_datapoints_request self asset_id datatypes_arg start_ts_arg end_ts_arg sort_arg
       limit_arg =
     session_get (self_url self @ ''/v1/datapoints/'' @ asset_id) (get_headers self)
       (get_asset_datapoints_params datatypes_arg start_ts_arg end_ts_arg sort_arg limit_arg)"

definition get_asset_datapoints ::
  "(request \<Rightarrow> response) \<Rightarrow> Client \<Rightarrow> string \<Rightarrow> string list arg \<Rightarrow> int option arg
     \<Rightarrow> int option arg \<Rightarrow> string option arg \<Rightarrow> int option arg \<Rightarrow> error + pyval" where
  "get_asset_datapoints send self asset_id datatypes_arg start_ts_arg end_ts_arg sort_arg
       limit_arg =
     (let result = send (get_asset_datapoints_request self asset_id datatypes_arg start_ts_arg
                           end_ts_arg sort_arg limit_arg)
      in if status_code result = 200 then json result
         else Inl (Client_Exception ''Unable to get datapoints''))"

text \<open>
  The condition of the comprehension of \<^verbatim>\<open>get_swd_networks\<close>:
  \<^verbatim>\<open>facility in swd_network['facilities']\<close>. The subscript is evaluated with no test
  that the key is there.
\<close>

definition in_facilities :: "string \<Rightarrow> pyval \<Rightarrow> error + bool" where
  "in_facilities facility swd_network =
     (case py_getitem swd_network ''facilities'' of
        Inl e \<Rightarrow> Inl e
      | Inr facilities \<Rightarrow> py_in facility facilities)"

definition get_swd_networks_request :: "Client \<Rightarrow> request" where
  "get_swd_networks_request self =
     session_get (self_url self @ ''/v1/swd-networks'') (get_headers self) []"

definition get_swd_networks ::
  "(request \<Rightarrow> response) \<Rightarrow> Client \<Rightarrow> string option arg \<Rightarrow> error + pyval" where
  "get_swd_networks send self facility_arg =
     (let facility = arg_or None facility_arg;
          result = send (get_swd_networks_request self)
      in if status_code result = 200 then
           (case json result of
              Inl e \<Rightarrow> Inl e
            | Inr swd_networks \<Rightarrow>
                (if truthy (str_val facility)
                 then comprehension (in_facilities (py_str facility)) swd_networks
                 else Inr swd_networks))
         else Inl (Client_Exception ''Unable to retrieve SWD networks''))"

definition get_truck_tickets_params ::
  "string option arg \<Rightarrow> string option arg \<Rightarrow> int option arg \<Rightarrow> int option arg
     \<Rightarrow> (string \<times> pyval) list" where
  "get_truck_tickets_params facility_arg type_arg start_ts_arg end_ts_arg =
     (let facility = arg_or None facility_arg;
          type' = arg_or None type_arg;
          start_ts = arg_or None start_ts_arg;
          end_ts = arg_or None end_ts_arg;
          params = [];
          params = (if truthy (int_val start_ts)
                    then AList.update ''start_ts'' (int_val start_ts) params else params);
          params = (if truthy (int_val end_ts)
                    then AList.update ''end_ts'' (int_val end_ts) params else params);
          params = (if truthy (str_val type')
                    then AList.update ''type'' (str_val type') params else params);
          params = (if truthy (str_val facility)
                    then AList.update ''facility'' (str_val facility) params else params)
      in params)"

definition get_truck_tickets_request ::
  "Client \<Rightarrow> string option arg \<Rightarrow> string option arg \<Rightarrow> int option arg \<Rightarrow> int option arg
     \<Rightarrow> request" where
  "get_truck_tickets_request self facility_arg type_arg start_ts_arg end_ts_arg =
     session_get (self_url self @ ''/v1/truck-tickets'') (get_headers self)
       (get_truck_tickets_params facility_arg type_arg start_ts_arg end_ts_arg)"

definition get_truck_tickets ::
  "(request \<Rightarrow> response) \<Rightarrow> Client \<Rightarrow> string option arg \<Rightarrow> string option arg
     \<Rightarrow> int option arg \<Rightarrow> int option arg \<Rightarrow> error + pyval" where
  "get_truck_tickets send self facility_arg type_arg start_ts_arg end_ts_arg =
     (let result = send (get_truck_tickets_request self facility_arg type_arg start_ts_arg
                           end_ts_arg)
      in if status_code result = 200 then json result
         else Inl (Client_Exception ''Unable to retrieve truck tickets''))"

section \<open>The write operation\<close>

text \<open>
  \<^verbatim>\<open>post_datapoints\<close> has no \<^verbatim>\<open>return\<close>: it ends normally with no value, or raises.
  On a status other than 202 it evaluates \<^verbatim>\<open>logger.exception(result.json())\<close> and
  then \<^verbatim>\<open>raise Exception('Unable to post datapoints')\<close>.
\<close>

definition post_datapoints_request :: "Client \<Rightarrow> string \<Rightarrow> pyval \<Rightarrow> request" where
  "post_datapoints_request self asset_id datapoints =
     session_post_json (self_url self @ ''/v1/datapoints/'' @ asset_id) (get_headers self)
       datapoints"

definition post_datapoints ::
  "(request \<Rightarrow> response) \<Rightarrow> Client \<Rightarrow> string \<Rightarrow> pyval \<Rightarrow> error + unit" where
  "post_datapoints send self asset_id datapoints =
     (let result = send (post_datapoints_request self asset_id datapoints)
      in if status_code result \<noteq> 202 then
           (case json result of
              Inl e \<Rightarrow> Inl e
            | Inr logged \<Rightarrow> Inl (Exception ''Unable to post datapoints''))
         else Inr ())"

section \<open>Every operation of a constructed client\<close>

text \<open>
  A call of a method with its arguments, the request that call hands to the session, and
  its outcome. These two functions only dispatch to the methods above; they let a
  statement range over every operation.
\<close>

datatype call =
    Get_alarm_services
  | Get_alarm_service string
  | Get_alarms
  | Get_alarm string "string option arg"
  | Get_facilities
  | Get_facility string
  | Get_asset string "string arg"
  | Get_assets "string arg" "string option arg" "string option arg"
  | Get_datatypes "string option arg"
  | Get_datatype string
  | Get_datapoints pyval "int option arg" "int option arg" "string option arg" "int option arg"
  | Get_asset_datapoints string "string list arg" "int option arg" "int option arg"
      "string option arg" "int option arg"
  | Get_swd_networks "string option arg"
  | Get_truck_tickets "string option arg" "string option arg" "int option arg" "int option arg"
  | Post_datapoints string pyval

fun request_of :: "Client \<Rightarrow> call \<Rightarrow> request" where
  "request_of self Get_alarm_services = get_alarm_services_request self"
| "request_of self (Get_alarm_service i) = get_alarm_service_request self i"
| "request_of self Get_alarms = get_alarms_request self"
| "request_of self (Get_alarm i d) = get_alarm_request self i d"
| "request_of self Get_facilities = get_facilities_request self"
| "request_of self (Get_facility i) = get_facility_request self i"
| "request_of self (Get_asset i t) = get_asset_request self i t"
| "request_of self (Get_assets t f a) = get_assets_request self t"
| "request_of self (Get_datatypes g) = get_datatypes_request self g"
| "request_of self (Get_datatype i) = get_datatype_request self i"
| "request_of self (Get_datapoints a s e so l) = get_datapoints_request self a s e so l"
| "request_of self (Get_asset_datapoints i d s e so l) =
     get_asset_datapoints_request self i d s e so l"
| "request_of self (Get_swd_networks f) = get_swd_networks_request self"
| "request_of self (Get_truck_tickets f t s e) = get_truck_tickets_request self f t s e"
| "request_of self (Post_datapoints i d) = post_datapoints_request self i d"

fun perform :: "(request \<Rightarrow> response) \<Rightarrow> Client \<Rightarrow> call \<Rightarrow> error + pyval" where
  "perform send self Get_alarm_services = get_alarm_services send self"
| "perform send self (Get_alarm_service i) = get_alarm_service send self i"
| "perform send self Get_alarms = get_alarms send self"
| "perform send self (Get_alarm i d) = get_alarm send self i d"
| "perform send self Get_facilities = get_facilities send self"
| "perform send self (Get_facility i) = get_facility send self i"
| "perform send self (Get_asset i t) = get_asset send self i t"
| "perform send self (Get_assets t f a) = get_assets send self t f a"
| "perform send self (Get_datatypes g) = get_datatypes send self g"
| "perform send self (Get_datatype i) = get_datatype send self i"
| "perform send self (Get_datapoints a s e so l) = get_datapoints send self a s e so l"
| "perform send self (Get_asset_datapoints i d s e so l) =
     get_asset_datapoints send self i d s e so l"
| "perform send self (Get_swd_networks f) = get_swd_networks send self f"
| "perform send self (Get_truck_tickets f t s e) = get_truck_tickets send self f t s e"
| "perform send self (Post_datapoints i d) =
     (case post_datapoints send self i d of Inl e \<Rightarrow> Inl e | Inr u \<Rightarrow> Inr PNone)"

section \<open>Notions used in the statements\<close>

text \<open>
  The definitions of this section are not code of the client. They name what the
  properties below speak about: a record of a response (a JSON object), a record that
  has a field with a given string value, a network record whose \<open>facilities\<close> is a
  list, and the keys a request carries in its query parameters and JSON body.
\<close>

fun is_record :: "pyval \<Rightarrow> bool" where
  "is_record (PDict kvs) = True"
| "is_record v = False"

fun has_field :: "string \<Rightarrow> string \<Rightarrow> pyval \<Rightarrow> bool" where
  "has_field k v (PDict kvs) = (map_of kvs k = Some (PStr v))"
| "has_field k v r = False"

text \<open>A filter argument that is \<open>None\<close> or the empty string keeps every record; any
  other keeps the records that have the field with that value.\<close>

fun keeps :: "string \<Rightarrow> string option \<Rightarrow> pyval \<Rightarrow> bool" where
  "keeps k None r = True"
| "keeps k (Some v) r = (if v = [] then True else has_field k v r)"

fun has_facilities :: "pyval \<Rightarrow> bool" where
  "has_facilities (PDict kvs) =
     (case map_of kvs ''facilities'' of Some (PList fs) \<Rightarrow> True | _ \<Rightarrow> False)"
| "has_facilities v = False"

fun serves :: "string \<Rightarrow> pyval \<Rightarrow> bool" where
  "serves f (PDict kvs) =
     (case map_of kvs ''facilities'' of Some (PList fs) \<Rightarrow> PStr f \<in> set fs | _ \<Rightarrow> False)"
| "serves f v = False"

definition payload_keys :: "request \<Rightarrow> string list" where
  "payload_keys q =
     map fst (req_params q) @
     (case req_json q of Some (PDict kvs) \<Rightarrow> map fst kvs | _ \<Rightarrow> [])"

text \<open>
  The path of each operation under the base URL, as the table of external interfaces
  lists it: \<open>/v1/alarms/{asset_id}[/{datatype}]\<close>, \<open>/v1/{type}/{id}\<close> with
  \<open>type\<close> defaulting to \<open>assets\<close>, and so on.
\<close>

fun path_of :: "call \<Rightarrow> string" where
  "path_of Get_alarm_services = ''/v1/alarm-services''"
| "path_of (Get_alarm_service i) = ''/v1/alarm-services/'' @ i"
| "path_of Get_alarms = ''/v1/alarms''"
| "path_of (Get_alarm i d) =
     ''/v1/alarms/'' @ i @
     (if truthy (str_val (arg_or None d)) then ''/'' @ py_str (arg_or None d) else [])"
| "path_of Get_facilities = ''/v1/facilities''"
| "path_of (Get_facility i) = ''/v1/facilities/'' @ i"
| "path_of (Get_asset i t) = ''/v1/'' @ arg_or ''assets'' t @ ''/'' @ i"
| "path_of (Get_assets t f a) = ''/v1/'' @ arg_or ''assets'' t"
| "path_of (Get_datatypes g) = ''/v1/datatypes''"
| "path_of (Get_datatype i) = ''/v1/datatypes/'' @ i"
| "path_of (Get_datapoints a s e so l) = ''/v1/datapoints''"
| "path_of (Get_asset_datapoints i d s e so l) = ''/v1/datapoints/'' @ i"
| "path_of (Get_swd_networks f) = ''/v1/swd-networks''"
| "path_of (Get_truck_tickets f t s e) = ''/v1/truck-tickets''"
| "path_of (Post_datapoints i d) = ''/v1/datapoints/'' @ i"

text \<open>Two calls that hand the same request to the session and have the same outcome.\<close>

definition same_call :: "(request \<Rightarrow> response) \<Rightarrow> Client \<Rightarrow> call \<Rightarrow> call \<Rightarrow> bool" where
  "same_call send self a b =
     (request_of self a = request_of self b \<and> perform send self a = perform send self b)"

text \<open>A constructed client and two server responses, for the concrete instances.\<close>

definition client0 :: Client where
  "client0 = \<lparr>self_url = ''https://api'', self_customer_id = None, self_token = PStr ''T''\<rparr>"

definition token_response :: "string \<Rightarrow> response" where
  "token_response t =
     \<lparr>status_code = 200, json_body = Some (PDict [(''access_token'', PStr t)])\<rparr>"

definition list_response :: "pyval list \<Rightarrow> response" where
  "list_response records = \<lparr>status_code = 200, json_body = Some (PList records)\<rparr>"

section \<open>Auxiliary facts\<close>

lemma rstrip_slash: "rstrip (u @ ''/'') ''/'' = rstrip u ''/''"
  by (simp add: rstrip_def)

lemma field_is_record: "is_record r \<Longrightarrow> field_is k v r = Inr (has_field k v r)"
  by (cases r)
    (auto simp: field_is_def map_of_eq_None_iff [symmetric] split: option.splits bool.splits)

lemma keeps_Some: "v \<noteq> [] \<Longrightarrow> keeps k (Some v) = has_field k v"
  by (simp add: fun_eq_iff)

lemma filter_raise_total:
  "list_all (\<lambda>x. cond x = Inr (p x)) xs \<Longrightarrow> filter_raise cond xs = Inr (filter p xs)"
  by (induction xs) auto

lemma comprehension_field_is:
  assumes "list_all is_record rs"
  shows "comprehension (field_is k v) (PList rs) = Inr (PList (filter (has_field k v) rs))"
proof -
  have "list_all (\<lambda>r. field_is k v r = Inr (has_field k v r)) rs"
    using assms by (simp add: list_all_iff field_is_record)
  then show ?thesis by (simp add: comprehension_def filter_raise_total)
qed

lemma in_facilities_list: "has_facilities r \<Longrightarrow> in_facilities f r = Inr (serves f r)"
  by (cases r) (auto simp: in_facilities_def split: option.splits pyval.splits)

lemma comprehension_in_facilities:
  assumes "list_all has_facilities rs"
  shows "comprehension (in_facilities f) (PList rs) = Inr (PList (filter (serves f) rs))"
proof -
  have "list_all (\<lambda>r. in_facilities f r = Inr (serves f r)) rs"
    using assms by (simp add: list_all_iff in_facilities_list)
  then show ?thesis by (simp add: comprehension_def filter_raise_total)
qed

lemma list_all_filter: "list_all P xs \<Longrightarrow> list_all P (filter Q xs)"
  by (simp add: list_all_iff)

lemma keys_get_datapoints_body:
  "fst ` set (get_datapoints_body a st e s l) =
     {''asset_datatypes''}
     \<union> (if truthy (int_val (arg_or None st)) then {''start_ts''} else {})
     \<union> (if truthy (int_val (arg_or None e)) then {''end_ts''} else {})
     \<union> (if truthy (str_val (arg_or (Some ''desc'') s)) then {''sort''} else {})
     \<union> (if truthy (int_val (arg_or (Some 100) l)) then {''limit''} else {})"
  unfolding get_datapoints_body_def Let_def
  by (simp only: AList.dom_update if_distrib [of "\<lambda>al. fst ` set al"]) auto

lemma keys_get_asset_datapoints_params:
  "fst ` set (get_asset_datapoints_params d st e s l) =
     (if truthy (list_val (arg_or [] d)) then {''datatypes''} else {})
     \<union> (if truthy (int_val (arg_or None st)) then {''start_ts''} else {})
     \<union> (if truthy (int_val (arg_or None e)) then {''end_ts''} else {})
     \<union> (if truthy (str_val (arg_or (Some ''desc'') s)) then {''sort''} else {})
     \<union> (if truthy (int_val (arg_or (Some 100) l)) then {''limit''} else {})"
  unfolding get_asset_datapoints_params_def Let_def
  by (simp only: AList.dom_update if_distrib [of "\<lambda>al. fst ` set al"]) auto

lemma keys_get_truck_tickets_params:
  "fst ` set (get_truck_tickets_params f t st e) =
     (if truthy (int_val (arg_or None st)) then {''start_ts''} else {})
     \<union> (if truthy (int_val (arg_or None e)) then {''end_ts''} else {})
     \<union> (if truthy (str_val (arg_or None t)) then {''type''} else {})
     \<union> (if truthy (str_val (arg_or None f)) then {''facility''} else {})"
  unfolding get_truck_tickets_params_def Let_def
  by (simp only: AList.dom_update if_distrib [of "\<lambda>al. fst ` set al"]) auto

lemma payload_keys_Get_datapoints:
  "set (payload_keys (get_datapoints_request self a st e s l))
     = fst ` set (get_datapoints_body a st e s l)"
  by (simp add: payload_keys_def get_datapoints_request_def session_post_json_def)

lemma payload_keys_Get_asset_datapoints:
  "set (payload_keys (get_asset_datapoints_request self i d st e s l))
     = fst ` set (get_asset_datapoints_params d st e s l)"
  by (simp add: payload_keys_def get_asset_datapoints_request_def session_get_def)

lemma payload_keys_Get_truck_tickets:
  "set (payload_keys (get_truck_tickets_request self f t st e))
     = fst ` set (get_truck_tickets_params f t st e)"
  by (simp add: payload_keys_def get_truck_tickets_request_def session_get_def)

lemma get_headers_empty_customer_id:
  "get_headers (self\<lparr>self_customer_id := Some ''''\<rparr>)
     = get_headers (self\<lparr>self_customer_id := None\<rparr>)"
  by (simp add: get_headers_def)

lemma request_of_empty_customer_id:
  "request_of (self\<lparr>self_customer_id := Some ''''\<rparr>) op
     = request_of (self\<lparr>self_customer_id := None\<rparr>) op"
  by (cases op)
    (simp_all add: get_headers_empty_customer_id get_alarm_services_request_def
      get_alarm_service_request_def get_alarms_request_def get_alarm_request_def
      get_facilities_request_def get_facility_request_def get_asset_request_def
      get_assets_request_def get_datatypes_request_def get_datatype_request_def
      get_datapoints_request_def get_asset_datapoints_request_def
      get_swd_networks_request_def get_truck_tickets_request_def
      post_datapoints_request_def Let_def)

lemma perform_request_of:
  "request_of c1 op = request_of c2 op \<Longrightarrow> perform send c1 op = perform send c2 op"
  by (cases op)
    (simp_all add: get_alarm_services_def get_alarm_service_def get_alarms_def get_alarm_def
      get_facilities_def get_facility_def get_asset_def get_assets_def get_datatypes_def
      get_datatype_def get_datapoints_def get_asset_datapoints_def get_swd_networks_def
      get_truck_tickets_def post_datapoints_def)

lemma req_url_request_of:
  "self_url c1 = self_url c2 \<Longrightarrow> req_url (request_of c1 op) = req_url (request_of c2 op)"
  by (cases op)
    (simp_all add: session_get_def session_post_json_def get_alarm_services_request_def
      get_alarm_service_request_def get_alarms_request_def get_alarm_request_def
      get_facilities_request_def get_facility_request_def get_asset_request_def
      get_assets_request_def get_datatypes_request_def get_datatype_request_def
      get_datapoints_request_def get_asset_datapoints_request_def
      get_swd_networks_request_def get_truck_tickets_request_def
      post_datapoints_request_def Let_def)

lemma Client_init_self_url:
  "Client_init send u client_id client_secret customer_id = Inr c \<Longrightarrow>
     self_url c = rstrip u ''/''"
  by (auto simp: Client_init_def Let_def split: if_splits sum.splits)

lemma rstrip_decompose: "\<exists>n. u = rstrip u ''/'' @ replicate n CHR ''/''"
proof -
  let ?P = "\<lambda>c. c \<in> set ''/''"
  let ?slashes = "takeWhile ?P (rev u)"
  have "rev (?slashes @ dropWhile ?P (rev u)) = u"
    by (simp only: takeWhile_dropWhile_id rev_rev_ident)
  then have "rev (dropWhile ?P (rev u)) @ rev ?slashes = u"
    by (simp only: rev_append)
  then have split: "u = rstrip u ''/'' @ rev ?slashes"
    by (simp only: rstrip_def)
  have "\<forall>c \<in> set (rev ?slashes). c = CHR ''/''"
    by (auto dest: set_takeWhileD)
  then have "replicate (length (rev ?slashes)) CHR ''/'' = rev ?slashes"
    by (rule replicate_length_same)
  with split have "u = rstrip u ''/'' @ replicate (length (rev ?slashes)) CHR ''/''"
    by simp
  then show ?thesis ..
qed

lemma rstrip_no_trailing_slash:
  "rstrip u ''/'' = [] \<or> last (rstrip u ''/'') \<noteq> CHR ''/''"
proof (cases "dropWhile (\<lambda>c. c \<in> set ''/'') (rev u)")
  case Nil
  then show ?thesis by (simp add: rstrip_def)
next
  case (Cons c cs)
  then have "\<not> c \<in> set ''/''"
    using hd_dropWhile [of "\<lambda>c. c \<in> set ''/''" "rev u"] by simp
  with Cons show ?thesis by (simp add: rstrip_def)
qed

lemma rstrip_unchanged: "u = [] \<or> last u \<noteq> CHR ''/'' \<Longrightarrow> rstrip u ''/'' = u"
proof (cases "rev u")
  case Nil
  then show ?thesis by (simp add: rstrip_def)
next
  case (Cons c cs)
  assume "u = [] \<or> last u \<noteq> CHR ''/''"
  moreover from Cons have "u = rev cs @ [c]"
    by (simp add: rev_swap)
  ultimately have "c \<noteq> CHR ''/''" by auto
  with Cons have "dropWhile (\<lambda>c. c \<in> set ''/'') (rev u) = rev u" by simp
  then show ?thesis by (simp add: rstrip_def)
qed

lemma req_url_path_of: "req_url (request_of c op) = self_url c @ path_of op"
  by (cases op)
    (simp_all add: session_get_def session_post_json_def get_alarm_services_request_def
      get_alarm_service_request_def get_alarms_request_def get_alarm_request_def
      get_facilities_request_def get_facility_request_def get_asset_request_def
      get_assets_request_def get_datatypes_request_def get_datatype_request_def
      get_datapoints_request_def get_asset_datapoints_request_def
      get_swd_networks_request_def get_truck_tickets_request_def
      post_datapoints_request_def Let_def)

section \<open>Construction and authentication\<close>

text \<open>
  C1, as stated: construction succeeds exactly when the status of the authenticate
  response is 200. It fails on a 200 response whose body has no \<open>access_token\<close>: the
  status is 200 and the subscript raises KeyError, so no client is constructed.
\<close>

theorem Client_init_200_without_token:
  "status_code (mock_server \<lparr>status_code = 200, json_body = Some (PDict [])\<rparr>
                 (authenticate_request ''https://api'' ''id'' ''secret'')) = 200
   \<and> Client_init (mock_server \<lparr>status_code = 200, json_body = Some (PDict [])\<rparr>)
        ''https://api'' ''id'' ''secret'' Omitted = Inl (KeyError ''access_token'')"
  by (simp add: Client_init_def mock_server_def json_def)

text \<open>
  C1, amended: constructing a client sends the authenticate request. For every status
  other than 200 construction raises the client error \<open>Unable to authenticate to API\<close>.
  Construction succeeds exactly when the status is 200 and the body parses to a JSON
  object that has an \<open>access_token\<close> field. Every constructed client holds as its token
  the \<open>access_token\<close> field of the parsed body of a 200 authenticate response.
\<close>

theorem Client_init_authenticates:
  "(status_code (send (authenticate_request u client_id client_secret)) \<noteq> 200 \<longrightarrow>
      Client_init send u client_id client_secret customer_id
        = Inl (Client_Exception ''Unable to authenticate to API''))
   \<and> ((\<exists>c. Client_init send u client_id client_secret customer_id = Inr c) =
        (status_code (send (authenticate_request u client_id client_secret)) = 200
         \<and> (\<exists>kvs t. json_body (send (authenticate_request u client_id client_secret))
                        = Some (PDict kvs)
                \<and> map_of kvs ''access_token'' = Some t)))
   \<and> (\<forall>c. Client_init send u client_id client_secret customer_id = Inr c \<longrightarrow>
         status_code (send (authenticate_request u client_id client_secret)) = 200
         \<and> (\<exists>body. json (send (authenticate_request u client_id client_secret)) = Inr body
                \<and> py_getitem body ''access_token'' = Inr (self_token c)))"
proof -
  let ?r = "send (authenticate_request u client_id client_secret)"
  show ?thesis
  proof (cases "status_code ?r = 200")
    case False
    then show ?thesis by (simp add: Client_init_def Let_def)
  next
    case ok: True
    show ?thesis
    proof (cases "json_body ?r")
      case None
      with ok show ?thesis by (simp add: Client_init_def Let_def json_def)
    next
      case (Some body)
      with ok show ?thesis
        by (cases body) (auto simp: Client_init_def Let_def json_def split: option.splits)
    qed
  qed
qed

theorem Client_init_authenticates_witness:
  "status_code (mock_server \<lparr>status_code = 401, json_body = None\<rparr>
                  (authenticate_request ''https://api/'' ''id'' ''secret'')) \<noteq> 200
   \<and> Client_init (mock_server \<lparr>status_code = 401, json_body = None\<rparr>)
         ''https://api/'' ''id'' ''secret'' Omitted
       = Inl (Client_Exception ''Unable to authenticate to API'')
   \<and> Client_init (mock_server (token_response ''T'')) ''https://api/'' ''id'' ''secret'' Omitted
       = Inr client0
   \<and> status_code (mock_server (token_response ''T'')
                    (authenticate_request ''https://api/'' ''id'' ''secret'')) = 200
   \<and> (\<exists>body. json (mock_server (token_response ''T'')
                      (authenticate_request ''https://api/'' ''id'' ''secret'')) = Inr body
          \<and> py_getitem body ''access_token'' = Inr (PStr ''T''))"
proof -
  have refused:
    "status_code (mock_server \<lparr>status_code = 401, json_body = None\<rparr>
                    (authenticate_request ''https://api/'' ''id'' ''secret'')) \<noteq> 200"
    by (simp add: mock_server_def)
  have built:
    "Client_init (mock_server (token_response ''T'')) ''https://api/'' ''id'' ''secret'' Omitted
       = Inr client0"
    by (simp add: Client_init_def mock_server_def token_response_def json_def client0_def
        authenticate_request_def rstrip_def)
  have token: "self_token client0 = PStr ''T''"
    by (simp add: client0_def)
  from refused built token
    Client_init_authenticates
      [of "mock_server \<lparr>status_code = 401, json_body = None\<rparr>" "''https://api/''" "''id''"
          "''secret''" Omitted]
    Client_init_authenticates
      [of "mock_server (token_response ''T'')" "''https://api/''" "''id''" "''secret''" Omitted]
  show ?thesis by metis
qed

section \<open>Status codes and the error raised\<close>

text \<open>
  C2: \<open>post_datapoints\<close> returns normally, with no value, exactly when the status of
  the response is 202; for every other status (200 and 201 among them) it raises.
\<close>

theorem post_datapoints_202:
  "(post_datapoints send self asset_id datapoints = Inr ())
     = (status_code (send (post_datapoints_request self asset_id datapoints)) = 202)
   \<and> (\<exists>e. post_datapoints send self asset_id datapoints = Inl e)
     = (status_code (send (post_datapoints_request self asset_id datapoints)) \<noteq> 202)"
  by (auto simp: post_datapoints_def Let_def json_def split: option.splits)

text \<open>
  C3: every failure for a status code is a \<open>Client_Exception\<close>. The code does
  otherwise in \<open>post_datapoints\<close>: on a 500 response with a JSON body it raises
  Python's base \<open>Exception\<close>, which is not a \<open>Client_Exception\<close>.
\<close>

theorem post_datapoints_raises_base_exception:
  "post_datapoints (mock_server \<lparr>status_code = 500, json_body = Some (PDict [])\<rparr>)
     client0 ''A1'' (PList []) = Inl (Exception ''Unable to post datapoints'')
   \<and> Exception ''Unable to post datapoints'' \<noteq> Client_Exception ''Unable to post datapoints''"
  by (simp add: post_datapoints_def mock_server_def json_def)

section \<open>Client-side filters\<close>

text \<open>
  C4, as stated: with a facility argument supplied, \<open>get_assets\<close> returns exactly the
  records whose \<open>facility\<close> field equals it. It fails for the empty string: the
  argument is supplied, no record has the facility \<open>''''\<close>, and every record is
  returned, since \<^verbatim>\<open>if facility:\<close> is false.
\<close>

theorem get_assets_empty_facility:
  "get_assets (mock_server (list_response [PDict [(''facility'', PStr ''F1'')]])) client0
     Omitted (Passed (Some '''')) Omitted
     = Inr (PList [PDict [(''facility'', PStr ''F1'')]])
   \<and> filter (has_field ''facility'' '''') [PDict [(''facility'', PStr ''F1'')]] = []"
  by (simp add: get_assets_def mock_server_def list_response_def json_def)

text \<open>
  C4, amended: for every 200 response whose body parses to a list of records,
  \<open>get_assets\<close> returns, in their original order, exactly the records that pass every
  filter in force: a \<open>facility\<close> (resp. \<open>asset_type\<close>) argument that is a non-empty
  string keeps the records that have the field \<open>facility\<close> (resp. \<open>asset_type\<close>)
  present and equal to it; an argument that is omitted, \<open>None\<close> or the empty string
  filters nothing. With neither filter in force the parsed list is returned unmodified.
\<close>

theorem get_assets_filters:
  assumes "status_code (send (get_assets_request self t)) = 200"
    and "json_body (send (get_assets_request self t)) = Some (PList records)"
    and "list_all is_record records"
  shows "get_assets send self t facility asset_type =
           Inr (PList (filter (\<lambda>r. keeps ''facility'' (arg_or None facility) r
                                   \<and> keeps ''asset_type'' (arg_or None asset_type) r)
                         records))"
proof -
  obtain f where f: "arg_or None facility = f" by simp
  obtain a where a: "arg_or None asset_type = a" by simp
  let ?kept = "filter (keeps ''facility'' f) records"
  have step1:
    "(if truthy (str_val f)
      then comprehension (field_is ''facility'' (py_str f)) (PList records)
      else Inr (PList records)) = Inr (PList ?kept)"
    using assms(3) by (cases f) (simp_all add: comprehension_field_is keeps_Some)
  have "list_all is_record ?kept"
    using assms(3) by (rule list_all_filter)
  then have step2:
    "(if truthy (str_val a)
      then comprehension (field_is ''asset_type'' (py_str a)) (PList ?kept)
      else Inr (PList ?kept)) = Inr (PList (filter (keeps ''asset_type'' a) ?kept))"
    by (cases a) (simp_all add: comprehension_field_is keeps_Some)
  have "get_assets send self t facility asset_type
          = Inr (PList (filter (keeps ''asset_type'' a) ?kept))"
    unfolding get_assets_def Let_def f a using assms(1,2) step1 step2
    by (simp add: json_def)
  also have "filter (keeps ''asset_type'' a) ?kept
           = filter (\<lambda>r. keeps ''facility'' f r \<and> keeps ''asset_type'' a r) records"
    by (simp add: conj_commute)
  finally show ?thesis by (simp add: f a)
qed

theorem get_assets_filters_witness:
  "status_code (mock_server (list_response
       [PDict [(''facility'', PStr ''F1'')], PDict [(''facility'', PStr ''F2'')]])
       (get_assets_request client0 Omitted)) = 200
   \<and> list_all is_record [PDict [(''facility'', PStr ''F1'')], PDict [(''facility'', PStr ''F2'')]]
   \<and> get_assets (mock_server (list_response
       [PDict [(''facility'', PStr ''F1'')], PDict [(''facility'', PStr ''F2'')]]))
       client0 Omitted (Passed (Some ''F1'')) Omitted
     = Inr (PList [PDict [(''facility'', PStr ''F1'')]])"
proof -
  let ?records = "[PDict [(''facility'', PStr ''F1'')], PDict [(''facility'', PStr ''F2'')]]"
  let ?send = "mock_server (list_response ?records)"
  have ok: "status_code (?send (get_assets_request client0 Omitted)) = 200"
    by (simp add: mock_server_def list_response_def)
  have body: "json_body (?send (get_assets_request client0 Omitted)) = Some (PList ?records)"
    by (simp add: mock_server_def list_response_def)
  have records: "list_all is_record ?records"
    by simp
  from get_assets_filters
      [where send = "?send" and self = client0 and t = Omitted and records = "?records"
         and facility = "Passed (Some ''F1'')" and asset_type = Omitted, OF ok body records]
  have "get_assets ?send client0 Omitted (Passed (Some ''F1'')) Omitted
          = Inr (PList [PDict [(''facility'', PStr ''F1'')]])"
    by simp
  with ok records show ?thesis by blast
qed

text \<open>
  C5, as stated: for every 200 response whose body is a list of records,
  \<open>get_swd_networks\<close> with a facility supplied returns exactly the records whose
  \<open>facilities\<close> contains it. It fails twice: for the empty string every record is
  returned, and on a record with no \<open>facilities\<close> key the call raises KeyError and
  returns nothing.
\<close>

theorem get_swd_networks_not_filtered:
  "get_swd_networks
     (mock_server (list_response [PDict [(''facilities'', PList [PStr ''F1''])]])) client0
     (Passed (Some ''''))
     = Inr (PList [PDict [(''facilities'', PList [PStr ''F1''])]])
   \<and> filter (serves '''') [PDict [(''facilities'', PList [PStr ''F1''])]] = []
   \<and> is_record (PDict [(''name'', PStr ''N1'')])
   \<and> get_swd_networks (mock_server (list_response [PDict [(''name'', PStr ''N1'')]])) client0
       (Passed (Some ''F1''))
     = Inl (KeyError ''facilities'')"
  by (simp add: get_swd_networks_def mock_server_def list_response_def json_def
      comprehension_def in_facilities_def)

text \<open>
  C5, amended: for every 200 response whose body parses to a list of records,
  \<open>get_swd_networks\<close> with the facility argument omitted, \<open>None\<close> or the empty
  string returns the parsed list unmodified, whatever the records hold; with a facility
  argument that is a non-empty string, and every record having a list under
  \<open>facilities\<close>, it returns exactly the records whose \<open>facilities\<close> list contains
  it, in their original order.
\<close>

theorem get_swd_networks_filter:
  assumes "status_code (send (get_swd_networks_request self)) = 200"
    and "json_body (send (get_swd_networks_request self)) = Some (PList records)"
  shows "(\<not> truthy (str_val (arg_or None facility)) \<longrightarrow>
            get_swd_networks send self facility = Inr (PList records))
         \<and> (truthy (str_val (arg_or None facility)) \<longrightarrow>
            list_all has_facilities records \<longrightarrow>
            get_swd_networks send self facility =
              Inr (PList (filter (serves (py_str (arg_or None facility))) records)))"
proof (intro conjI impI)
  assume "\<not> truthy (str_val (arg_or None facility))"
  with assms show "get_swd_networks send self facility = Inr (PList records)"
    by (simp add: get_swd_networks_def Let_def json_def)
next
  assume "truthy (str_val (arg_or None facility))" and "list_all has_facilities records"
  with assms show "get_swd_networks send self facility =
      Inr (PList (filter (serves (py_str (arg_or None facility))) records))"
    by (simp add: get_swd_networks_def Let_def json_def comprehension_in_facilities)
qed

theorem get_swd_networks_filter_witness:
  "status_code (mock_server (list_response [PDict [(''name'', PStr ''N1'')]])
       (get_swd_networks_request client0)) = 200
   \<and> \<not> truthy (str_val (arg_or None (Passed (Some ''''))))
   \<and> get_swd_networks (mock_server (list_response [PDict [(''name'', PStr ''N1'')]]))
       client0 (Passed (Some ''''))
     = Inr (PList [PDict [(''name'', PStr ''N1'')]])
   \<and> get_swd_networks (mock_server (list_response [PDict [(''name'', PStr ''N1'')]]))
       client0 Omitted
     = Inr (PList [PDict [(''name'', PStr ''N1'')]])
   \<and> truthy (str_val (arg_or None (Passed (Some ''F1''))))
   \<and> list_all has_facilities
       [PDict [(''facilities'', PList [PStr ''F1'', PStr ''F2''])],
        PDict [(''facilities'', PList [PStr ''F3''])]]
   \<and> get_swd_networks (mock_server (list_response
       [PDict [(''facilities'', PList [PStr ''F1'', PStr ''F2''])],
        PDict [(''facilities'', PList [PStr ''F3''])]]))
       client0 (Passed (Some ''F1''))
     = Inr (PList [PDict [(''facilities'', PList [PStr ''F1'', PStr ''F2''])]])"
proof -
  let ?plain = "[PDict [(''name'', PStr ''N1'')]]"
  let ?records = "[PDict [(''facilities'', PList [PStr ''F1'', PStr ''F2''])],
                   PDict [(''facilities'', PList [PStr ''F3''])]]"
  have ok: "status_code (mock_server (list_response rs) (get_swd_networks_request client0))
              = 200" for rs
    by (simp add: mock_server_def list_response_def)
  have body: "json_body (mock_server (list_response rs) (get_swd_networks_request client0))
                = Some (PList rs)" for rs
    by (simp add: mock_server_def list_response_def)
  have empty: "\<not> truthy (str_val (arg_or None (Passed (Some ''''))))"
    by simp
  have omitted: "\<not> truthy (str_val (arg_or None (Omitted :: string option arg)))"
    by simp
  have given: "truthy (str_val (arg_or None (Passed (Some ''F1''))))"
    by simp
  have records: "list_all has_facilities ?records"
    by simp
  note unfiltered =
    get_swd_networks_filter
      [where send = "mock_server (list_response ?plain)" and self = client0
         and records = "?plain", OF ok body, THEN conjunct1, rule_format]
  note filtered =
    get_swd_networks_filter
      [where send = "mock_server (list_response ?records)" and self = client0
         and records = "?records" and facility = "Passed (Some ''F1'')", OF ok body,
       THEN conjunct2, rule_format, OF given records]
  have "filter (serves (py_str (arg_or None (Passed (Some ''F1''))))) ?records
          = [PDict [(''facilities'', PList [PStr ''F1'', PStr ''F2''])]]"
    by simp
  with filtered have kept:
    "get_swd_networks (mock_server (list_response ?records)) client0 (Passed (Some ''F1''))
       = Inr (PList [PDict [(''facilities'', PList [PStr ''F1'', PStr ''F2''])]])"
    by (simp only:)
  from ok [of ?plain] empty unfiltered [OF empty] unfiltered [OF omitted] given records kept
  show ?thesis by (intro conjI)
qed

text \<open>
  C9: there is a 200 response to \<open>get_swd_networks\<close> whose body is a list with a record
  that has no \<open>facilities\<close> key, on which the call with a facility raises KeyError: it
  neither returns a list nor raises the client error. On a record without the filtered
  field \<open>get_assets\<close> returns; its filter tests that the field is there.
\<close>

theorem get_swd_networks_KeyError:
  "\<exists>records. list_ex (\<lambda>r. is_record r \<and> py_in ''facilities'' r = Inr False) records
     \<and> status_code (list_response records) = 200
     \<and> json (list_response records) = Inr (PList records)
     \<and> get_swd_networks (mock_server (list_response records)) client0 (Passed (Some ''F1''))
         = Inl (KeyError ''facilities'')
     \<and> get_assets (mock_server (list_response records)) client0 Omitted
         (Passed (Some ''F1'')) Omitted = Inr (PList [])"
proof (intro exI conjI)
  let ?records = "[PDict [(''name'', PStr ''N1'')]]"
  show "list_ex (\<lambda>r. is_record r \<and> py_in ''facilities'' r = Inr False) ?records"
    by simp
  show "status_code (list_response ?records) = 200"
    by (simp add: list_response_def)
  show "json (list_response ?records) = Inr (PList ?records)"
    by (simp add: list_response_def json_def)
  show "get_swd_networks (mock_server (list_response ?records)) client0 (Passed (Some ''F1''))
          = Inl (KeyError ''facilities'')"
    by (simp add: get_swd_networks_def mock_server_def list_response_def json_def
        comprehension_def in_facilities_def)
  show "get_assets (mock_server (list_response ?records)) client0 Omitted
          (Passed (Some ''F1'')) Omitted = Inr (PList [])"
    by (simp add: get_assets_def mock_server_def list_response_def json_def
        comprehension_def field_is_def)
qed

section \<open>Optional arguments in the outgoing request\<close>

text \<open>
  C6, as stated: an optional argument that the caller omits produces no key in the
  query parameters or JSON body. It fails for \<open>sort\<close> and \<open>limit\<close>: a call of
  \<open>get_datapoints\<close> that passes only the required argument sends both keys, with the
  defaults of the signature.
\<close>

theorem get_datapoints_sends_defaults:
  "req_json (request_of client0 (Get_datapoints (PDict []) Omitted Omitted Omitted Omitted))
     = Some (PDict [(''asset_datatypes'', PDict []), (''sort'', PStr ''desc''),
                    (''limit'', PInt 100)])
   \<and> ''sort'' \<in> set (payload_keys
         (request_of client0 (Get_datapoints (PDict []) Omitted Omitted Omitted Omitted)))
   \<and> ''limit'' \<in> set (payload_keys
         (request_of client0 (Get_datapoints (PDict []) Omitted Omitted Omitted Omitted)))"
  by (simp add: payload_keys_def get_datapoints_request_def session_post_json_def
      get_datapoints_body_def)

text \<open>
  C6, amended: every optional argument whose default is \<open>None\<close> or the empty list
  (\<open>start_ts\<close>, \<open>end_ts\<close>, \<open>datatypes\<close>, and \<open>facility\<close> and \<open>type\<close> of
  \<open>get_truck_tickets\<close>) produces, when omitted, no key of its name in the outgoing
  query parameters or JSON body; \<open>get_datatypes\<close>, \<open>get_alarm\<close>, \<open>get_asset\<close>,
  \<open>get_assets\<close> and \<open>get_swd_networks\<close> send no key at all. The arguments \<open>sort\<close>
  and \<open>limit\<close> of \<open>get_datapoints\<close> and \<open>get_asset_datapoints\<close> have the defaults
  \<open>desc\<close> and \<open>100\<close>: when omitted, their keys are sent with these values.
\<close>

theorem omitted_arguments_keys:
  "''start_ts'' \<notin> set (payload_keys (request_of self (Get_datapoints a Omitted e s l)))
   \<and> ''end_ts'' \<notin> set (payload_keys (request_of self (Get_datapoints a st Omitted s l)))
   \<and> ''datatypes'' \<notin>
       set (payload_keys (request_of self (Get_asset_datapoints i Omitted st e s l)))
   \<and> ''start_ts'' \<notin>
       set (payload_keys (request_of self (Get_asset_datapoints i d Omitted e s l)))
   \<and> ''end_ts'' \<notin>
       set (payload_keys (request_of self (Get_asset_datapoints i d st Omitted s l)))
   \<and> ''facility'' \<notin> set (payload_keys (request_of self (Get_truck_tickets Omitted t st e)))
   \<and> ''type'' \<notin> set (payload_keys (request_of self (Get_truck_tickets f Omitted st e)))
   \<and> ''start_ts'' \<notin> set (payload_keys (request_of self (Get_truck_tickets f t Omitted e)))
   \<and> ''end_ts'' \<notin> set (payload_keys (request_of self (Get_truck_tickets f t st Omitted)))
   \<and> payload_keys (request_of self (Get_datatypes g)) = []
   \<and> payload_keys (request_of self (Get_alarm i dt)) = []
   \<and> payload_keys (request_of self (Get_asset i ty)) = []
   \<and> payload_keys (request_of self (Get_assets ty f at)) = []
   \<and> payload_keys (request_of self (Get_swd_networks f)) = []
   \<and> map_of (get_datapoints_body a st e Omitted l) ''sort'' = Some (PStr ''desc'')
   \<and> map_of (get_datapoints_body a st e s Omitted) ''limit'' = Some (PInt 100)
   \<and> map_of (get_asset_datapoints_params d st e Omitted l) ''sort'' = Some (PStr ''desc'')
   \<and> map_of (get_asset_datapoints_params d st e s Omitted) ''limit'' = Some (PInt 100)"
proof -
  have datapoints:
    "''start_ts'' \<notin> set (payload_keys (request_of self (Get_datapoints a Omitted e s l)))"
    "''end_ts'' \<notin> set (payload_keys (request_of self (Get_datapoints a st Omitted s l)))"
    by (simp_all add: payload_keys_Get_datapoints keys_get_datapoints_body)
  have asset_datapoints:
    "''datatypes'' \<notin>
       set (payload_keys (request_of self (Get_asset_datapoints i Omitted st e s l)))"
    "''start_ts'' \<notin>
       set (payload_keys (request_of self (Get_asset_datapoints i d Omitted e s l)))"
    "''end_ts'' \<notin>
       set (payload_keys (request_of self (Get_asset_datapoints i d st Omitted s l)))"
    by (simp_all add: payload_keys_Get_asset_datapoints keys_get_asset_datapoints_params
        list_val_def)
  have truck_tickets:
    "''facility'' \<notin> set (payload_keys (request_of self (Get_truck_tickets Omitted t st e)))"
    "''type'' \<notin> set (payload_keys (request_of self (Get_truck_tickets f Omitted st e)))"
    "''start_ts'' \<notin> set (payload_keys (request_of self (Get_truck_tickets f t Omitted e)))"
    "''end_ts'' \<notin> set (payload_keys (request_of self (Get_truck_tickets f t st Omitted)))"
    by (simp_all add: payload_keys_Get_truck_tickets keys_get_truck_tickets_params)
  have no_payload:
    "payload_keys (request_of self (Get_datatypes g)) = []"
    "payload_keys (request_of self (Get_alarm i dt)) = []"
    "payload_keys (request_of self (Get_asset i ty)) = []"
    "payload_keys (request_of self (Get_assets ty f at)) = []"
    "payload_keys (request_of self (Get_swd_networks f)) = []"
    by (simp_all add: payload_keys_def session_get_def get_datatypes_request_def
        get_alarm_request_def get_asset_request_def get_assets_request_def
        get_swd_networks_request_def Let_def)
  have defaults:
    "map_of (get_datapoints_body a st e Omitted l) ''sort'' = Some (PStr ''desc'')"
    "map_of (get_datapoints_body a st e s Omitted) ''limit'' = Some (PInt 100)"
    "map_of (get_asset_datapoints_params d st e Omitted l) ''sort'' = Some (PStr ''desc'')"
    "map_of (get_asset_datapoints_params d st e s Omitted) ''limit'' = Some (PInt 100)"
    by (simp_all add: get_datapoints_body_def get_asset_datapoints_params_def Let_def
        AList.update_conv')
  from datapoints asset_datapoints truck_tickets no_payload defaults show ?thesis
    by (intro conjI)
qed

text \<open>
  C7: every call of \<open>get_datatypes\<close>, whatever is passed for \<open>group_by\<close> and also
  when its default \<open>asset\<close> applies, sends a GET request to \<open>/v1/datatypes\<close> with
  empty query parameters: the value of \<open>group_by\<close> is not sent, and the call behaves
  as the call without the argument.
\<close>

theorem get_datatypes_drops_group_by:
  "req_method (get_datatypes_request self group_by) = GET
   \<and> req_url (get_datatypes_request self group_by) = self_url self @ ''/v1/datatypes''
   \<and> req_params (get_datatypes_request self group_by) = []
   \<and> req_json (get_datatypes_request self group_by) = None
   \<and> req_data (get_datatypes_request self group_by) = []
   \<and> ''group_by'' \<notin> set (payload_keys (request_of self (Get_datatypes group_by)))
   \<and> get_datatypes_request self group_by = get_datatypes_request self Omitted
   \<and> get_datatypes send self group_by = get_datatypes send self Omitted"
  by (simp add: get_datatypes_def get_datatypes_request_def session_get_def payload_keys_def
      Let_def)

text \<open>
  C8: construction stores the base URL with its trailing slashes stripped: the stored URL
  does not end in \<open>/\<close> and the base URL is the stored URL followed by slashes only.
  A client constructed with the base URL \<open>u\<close> followed by \<open>/\<close> and a client
  constructed with \<open>u\<close> both store that stripped URL, which is \<open>u\<close> itself when
  \<open>u\<close> has no trailing slash. Both send the authenticate request to the stripped URL
  followed by \<open>/v1/authenticate\<close> and issue every operation, called with the same
  arguments, to the stripped URL followed by the path of the operation: the URLs are
  identical. Against the same server and with the same credentials the two constructions
  have the same outcome.
\<close>

theorem trailing_slash_same_urls:
  assumes "Client_init send1 (u @ ''/'') client_id1 client_secret1 customer_id1 = Inr c1"
    and "Client_init send2 u client_id2 client_secret2 customer_id2 = Inr c2"
  shows "req_url (authenticate_request (u @ ''/'') client_id1 client_secret1)
           = req_url (authenticate_request u client_id2 client_secret2)
         \<and> self_url c1 = self_url c2
         \<and> req_url (request_of c1 op) = req_url (request_of c2 op)
         \<and> Client_init send (u @ ''/'') client_id client_secret customer_id
             = Client_init send u client_id client_secret customer_id
         \<and> (\<exists>n. u = self_url c2 @ replicate n CHR ''/'')
         \<and> (self_url c2 = [] \<or> last (self_url c2) \<noteq> CHR ''/'')
         \<and> (u = [] \<or> last u \<noteq> CHR ''/'' \<longrightarrow> self_url c1 = u \<and> self_url c2 = u)
         \<and> req_url (authenticate_request u client_id2 client_secret2)
             = self_url c2 @ ''/v1/authenticate''
         \<and> req_url (request_of c1 op) = self_url c2 @ path_of op"
proof -
  have auth: "authenticate_request (u @ ''/'') i s = authenticate_request u i s" for i s
    by (simp add: authenticate_request_def rstrip_slash)
  have "self_url c1 = rstrip (u @ ''/'') ''/''"
    using assms(1) by (rule Client_init_self_url)
  then have stored1: "self_url c1 = rstrip u ''/''"
    by (simp add: rstrip_slash)
  have stored2: "self_url c2 = rstrip u ''/''"
    using assms(2) by (rule Client_init_self_url)
  have same: "self_url c1 = self_url c2"
    by (simp add: stored1 stored2)
  then have urls: "req_url (request_of c1 op) = req_url (request_of c2 op)"
    by (rule req_url_request_of)
  have outcome: "Client_init send (u @ ''/'') client_id client_secret customer_id
                   = Client_init send u client_id client_secret customer_id"
    by (simp add: Client_init_def Let_def auth rstrip_slash cong: sum.case_cong)
  have auth_urls: "req_url (authenticate_request (u @ ''/'') client_id1 client_secret1)
                     = req_url (authenticate_request u client_id2 client_secret2)"
    by (simp add: authenticate_request_def rstrip_slash)
  have slashes: "\<exists>n. u = self_url c2 @ replicate n CHR ''/''"
    unfolding stored2 by (rule rstrip_decompose)
  have stripped: "self_url c2 = [] \<or> last (self_url c2) \<noteq> CHR ''/''"
    unfolding stored2 by (rule rstrip_no_trailing_slash)
  have kept: "u = [] \<or> last u \<noteq> CHR ''/'' \<longrightarrow> self_url c1 = u \<and> self_url c2 = u"
    by (simp add: stored1 stored2 rstrip_unchanged)
  have auth_path: "req_url (authenticate_request u client_id2 client_secret2)
                     = self_url c2 @ ''/v1/authenticate''"
    by (simp add: authenticate_request_def stored2)
  have path: "req_url (request_of c1 op) = self_url c2 @ path_of op"
    by (simp add: req_url_path_of same)
  from auth_urls same urls outcome slashes stripped kept auth_path path
  show ?thesis by (intro conjI)
qed

theorem trailing_slash_same_urls_witness:
  "Client_init (mock_server (token_response ''T'')) (''https://api'' @ ''/'') ''id'' ''secret''
       Omitted = Inr client0
   \<and> Client_init (mock_server (token_response ''T2'')) ''https://api'' ''id2'' ''secret2''
       (Passed (Some ''cust''))
     = Inr \<lparr>self_url = ''https://api'', self_customer_id = Some ''cust'',
            self_token = PStr ''T2''\<rparr>
   \<and> (''https://api'' = [] \<or> last ''https://api'' \<noteq> CHR ''/'')
   \<and> self_url client0 = ''https://api''
   \<and> req_url (authenticate_request (''https://api'' @ ''/'') ''id'' ''secret'')
     = ''https://api/v1/authenticate''
   \<and> req_url (request_of client0 (Get_facility ''F1'')) = ''https://api/v1/facilities/F1''
   \<and> req_url (request_of client0 (Get_alarm ''A1'' (Passed (Some ''temp''))))
     = ''https://api/v1/alarms/A1/temp''
   \<and> req_url (request_of client0 (Get_assets Omitted Omitted Omitted))
     = ''https://api/v1/assets''
   \<and> req_url (request_of client0 (Post_datapoints ''A1'' PNone))
     = ''https://api/v1/datapoints/A1''
   \<and> Client_init (mock_server (token_response ''T'')) (''https://api//'' @ ''/'') ''id''
       ''secret'' Omitted = Inr client0
   \<and> Client_init (mock_server (token_response ''T'')) ''https://api//'' ''id'' ''secret''
       Omitted = Inr client0
   \<and> (\<exists>n. ''https://api//'' = self_url client0 @ replicate n CHR ''/'')"
proof -
  let ?c2 = "\<lparr>self_url = ''https://api'', self_customer_id = Some ''cust'',
              self_token = PStr ''T2''\<rparr>"
  have slash:
    "Client_init (mock_server (token_response ''T'')) (''https://api'' @ ''/'') ''id''
       ''secret'' Omitted = Inr client0"
    by (simp add: Client_init_def mock_server_def token_response_def json_def client0_def
        rstrip_def)
  have plain:
    "Client_init (mock_server (token_response ''T2'')) ''https://api'' ''id2'' ''secret2''
       (Passed (Some ''cust'')) = Inr ?c2"
    by (simp add: Client_init_def mock_server_def token_response_def json_def rstrip_def)
  have no_slash: "''https://api'' = [] \<or> last ''https://api'' \<noteq> CHR ''/''"
    by simp
  note facts = trailing_slash_same_urls [OF slash plain]
  have kept: "self_url client0 = ''https://api''"
    using facts no_slash by blast
  have path: "req_url (request_of client0 op) = self_url ?c2 @ path_of op" for op
    using facts [where op = op] by blast
  have auth_same:
    "req_url (authenticate_request (''https://api'' @ ''/'') ''id'' ''secret'')
       = req_url (authenticate_request ''https://api'' ''id2'' ''secret2'')"
    using facts by blast
  have auth_path:
    "req_url (authenticate_request ''https://api'' ''id2'' ''secret2'')
       = self_url ?c2 @ ''/v1/authenticate''"
    using facts by blast
  have auth: "req_url (authenticate_request (''https://api'' @ ''/'') ''id'' ''secret'')
                = ''https://api/v1/authenticate''"
    using auth_same auth_path by simp
  have facility: "req_url (request_of client0 (Get_facility ''F1''))
                    = ''https://api/v1/facilities/F1''"
    using path [of "Get_facility ''F1''"] by simp
  have alarm: "req_url (request_of client0 (Get_alarm ''A1'' (Passed (Some ''temp''))))
                 = ''https://api/v1/alarms/A1/temp''"
    using path [of "Get_alarm ''A1'' (Passed (Some ''temp''))"] by simp
  have assets: "req_url (request_of client0 (Get_assets Omitted Omitted Omitted))
                  = ''https://api/v1/assets''"
    using path [of "Get_assets Omitted Omitted Omitted"] by simp
  have post: "req_url (request_of client0 (Post_datapoints ''A1'' PNone))
                = ''https://api/v1/datapoints/A1''"
    using path [of "Post_datapoints ''A1'' PNone"] by simp
  have slashes3:
    "Client_init (mock_server (token_response ''T'')) (''https://api//'' @ ''/'') ''id''
       ''secret'' Omitted = Inr client0"
    by (simp add: Client_init_def mock_server_def token_response_def json_def client0_def
        rstrip_def)
  have slashes2:
    "Client_init (mock_server (token_response ''T'')) ''https://api//'' ''id'' ''secret''
       Omitted = Inr client0"
    by (simp add: Client_init_def mock_server_def token_response_def json_def client0_def
        rstrip_def)
  have two: "\<exists>n. ''https://api//'' = self_url client0 @ replicate n CHR ''/''"
    using trailing_slash_same_urls [OF slashes3 slashes2] by blast
  from slash plain no_slash kept auth facility alarm assets post slashes3 slashes2 two
  show ?thesis by (intro conjI)
qed

text \<open>
  C10, as stated: passing a falsy value for an optional parameter gives the same request
  and behaviour as omitting the argument. It fails where the default of the parameter is
  not falsy: \<open>limit=0\<close> sends no \<open>limit\<close> key, while the call that omits \<open>limit\<close>
  sends \<open>limit=100\<close>. It fails for \<open>type\<close> of \<open>get_assets\<close>, which is put into
  the URL with no test: the empty string gives the path \<open>/v1/\<close>, the omitted argument
  \<open>/v1/assets\<close>. And it fails for \<open>asset_type\<close> of \<open>get_assets\<close> on a failure
  status: the message is formatted from the argument, and ends in \<open>of type \<close> for the
  empty string and in \<open>of type None\<close> for the omitted argument.
\<close>

theorem falsy_differs_from_omitted:
  "payload_keys (request_of client0
       (Get_datapoints (PDict []) Omitted Omitted Omitted (Passed (Some 0))))
     = [''asset_datatypes'', ''sort'']
   \<and> payload_keys (request_of client0
       (Get_datapoints (PDict []) Omitted Omitted Omitted Omitted))
     = [''asset_datatypes'', ''sort'', ''limit'']
   \<and> request_of client0 (Get_datapoints (PDict []) Omitted Omitted Omitted (Passed (Some 0)))
     \<noteq> request_of client0 (Get_datapoints (PDict []) Omitted Omitted Omitted Omitted)
   \<and> req_url (request_of client0 (Get_assets (Passed '''') Omitted Omitted))
     = ''https://api/v1/''
   \<and> req_url (request_of client0 (Get_assets Omitted Omitted Omitted))
     = ''https://api/v1/assets''
   \<and> get_assets (mock_server \<lparr>status_code = 500, json_body = None\<rparr>) client0 Omitted
       Omitted (Passed (Some ''''))
     = Inl (Client_Exception ''Unable to retrieve assets of type '')
   \<and> get_assets (mock_server \<lparr>status_code = 500, json_body = None\<rparr>) client0 Omitted
       Omitted Omitted
     = Inl (Client_Exception ''Unable to retrieve assets of type None'')"
  by (simp add: payload_keys_def get_datapoints_request_def session_post_json_def
      get_datapoints_body_def get_assets_request_def session_get_def client0_def
      get_assets_def mock_server_def)

text \<open>
  C10, amended: the optional parameters below are tested for truthiness, and a falsy value
  (0 for \<open>start_ts\<close>, \<open>end_ts\<close> or \<open>limit\<close>; the empty string for \<open>sort\<close>,
  \<open>facility\<close>, \<open>asset_type\<close>, \<open>type\<close> of \<open>get_truck_tickets\<close>, \<open>datatype\<close> of
  \<open>get_alarm\<close>, \<open>group_by\<close> or \<open>customer_id\<close>; the empty list for \<open>datatypes\<close>)
  sends no key, header or path suffix and applies no filter.
  \<^item> For \<open>start_ts\<close>, \<open>end_ts\<close>, \<open>datatypes\<close>, \<open>facility\<close> (of \<open>get_assets\<close>,
    \<open>get_swd_networks\<close> and \<open>get_truck_tickets\<close>), \<open>type\<close> of
    \<open>get_truck_tickets\<close>, \<open>datatype\<close> of \<open>get_alarm\<close>, \<open>group_by\<close> and
    \<open>customer_id\<close>, the request and the behaviour are those of the call that omits the
    argument.
  \<^item> For \<open>asset_type\<close> the request, and the outcome on a 200 response, are those of the
    call that omits the argument; on any other status the message of the client error
    ends in \<open>of type \<close> for the empty string and in \<open>of type None\<close> for the omitted
    argument.
  \<^item> For \<open>sort\<close> and \<open>limit\<close> the falsy value sends no key, whereas the omitted
    argument sends its default (C6).
\<close>

theorem falsy_arguments_not_sent:
  "same_call send self (Get_datapoints a (Passed (Some 0)) e s l)
                       (Get_datapoints a Omitted e s l)
   \<and> same_call send self (Get_datapoints a st (Passed (Some 0)) s l)
                         (Get_datapoints a st Omitted s l)
   \<and> same_call send self (Get_asset_datapoints i (Passed []) st e s l)
                         (Get_asset_datapoints i Omitted st e s l)
   \<and> same_call send self (Get_asset_datapoints i d (Passed (Some 0)) e s l)
                         (Get_asset_datapoints i d Omitted e s l)
   \<and> same_call send self (Get_asset_datapoints i d st (Passed (Some 0)) s l)
                         (Get_asset_datapoints i d st Omitted s l)
   \<and> same_call send self (Get_truck_tickets (Passed (Some '''')) t st e)
                         (Get_truck_tickets Omitted t st e)
   \<and> same_call send self (Get_truck_tickets f (Passed (Some '''')) st e)
                         (Get_truck_tickets f Omitted st e)
   \<and> same_call send self (Get_truck_tickets f t (Passed (Some 0)) e)
                         (Get_truck_tickets f t Omitted e)
   \<and> same_call send self (Get_truck_tickets f t st (Passed (Some 0)))
                         (Get_truck_tickets f t st Omitted)
   \<and> same_call send self (Get_alarm i (Passed (Some ''''))) (Get_alarm i Omitted)
   \<and> same_call send self (Get_datatypes (Passed (Some ''''))) (Get_datatypes Omitted)
   \<and> same_call send self (Get_assets ty (Passed (Some '''')) at) (Get_assets ty Omitted at)
   \<and> same_call send self (Get_swd_networks (Passed (Some ''''))) (Get_swd_networks Omitted)
   \<and> get_headers (self\<lparr>self_customer_id := Some ''''\<rparr>)
       = [(''authorization'', Bearer (self_token self))]
   \<and> request_of (self\<lparr>self_customer_id := Some ''''\<rparr>) op
       = request_of (self\<lparr>self_customer_id := None\<rparr>) op
   \<and> perform send (self\<lparr>self_customer_id := Some ''''\<rparr>) op
       = perform send (self\<lparr>self_customer_id := None\<rparr>) op
   \<and> ''sort'' \<notin>
       set (payload_keys (request_of self (Get_datapoints a st e (Passed (Some '''')) l)))
   \<and> ''limit'' \<notin>
       set (payload_keys (request_of self (Get_datapoints a st e s (Passed (Some 0)))))
   \<and> ''sort'' \<notin>
       set (payload_keys
              (request_of self (Get_asset_datapoints i d st e (Passed (Some '''')) l)))
   \<and> ''limit'' \<notin>
       set (payload_keys
              (request_of self (Get_asset_datapoints i d st e s (Passed (Some 0)))))
   \<and> request_of self (Get_assets ty f (Passed (Some '''')))
       = request_of self (Get_assets ty f Omitted)
   \<and> (status_code (send (get_assets_request self ty)) = 200 \<longrightarrow>
        perform send self (Get_assets ty f (Passed (Some '''')))
          = perform send self (Get_assets ty f Omitted))
   \<and> (status_code (send (get_assets_request self ty)) \<noteq> 200 \<longrightarrow>
        perform send self (Get_assets ty f (Passed (Some '''')))
          = Inl (Client_Exception ''Unable to retrieve assets of type '')
        \<and> perform send self (Get_assets ty f Omitted)
          = Inl (Client_Exception ''Unable to retrieve assets of type None''))"
proof -
  have datapoints:
    "get_datapoints_body a (Passed (Some 0)) e s l = get_datapoints_body a Omitted e s l"
    "get_datapoints_body a st (Passed (Some 0)) s l = get_datapoints_body a st Omitted s l"
    by (simp_all add: get_datapoints_body_def)
  have asset_datapoints:
    "get_asset_datapoints_params (Passed []) st e s l
       = get_asset_datapoints_params Omitted st e s l"
    "get_asset_datapoints_params d (Passed (Some 0)) e s l
       = get_asset_datapoints_params d Omitted e s l"
    "get_asset_datapoints_params d st (Passed (Some 0)) s l
       = get_asset_datapoints_params d st Omitted s l"
    by (simp_all add: get_asset_datapoints_params_def)
  have truck_tickets:
    "get_truck_tickets_params (Passed (Some '''')) t st e
       = get_truck_tickets_params Omitted t st e"
    "get_truck_tickets_params f (Passed (Some '''')) st e
       = get_truck_tickets_params f Omitted st e"
    "get_truck_tickets_params f t (Passed (Some 0)) e
       = get_truck_tickets_params f t Omitted e"
    "get_truck_tickets_params f t st (Passed (Some 0))
       = get_truck_tickets_params f t st Omitted"
    by (simp_all add: get_truck_tickets_params_def)
  have same_keys:
    "same_call send self (Get_datapoints a (Passed (Some 0)) e s l)
                         (Get_datapoints a Omitted e s l)"
    "same_call send self (Get_datapoints a st (Passed (Some 0)) s l)
                         (Get_datapoints a st Omitted s l)"
    "same_call send self (Get_asset_datapoints i (Passed []) st e s l)
                         (Get_asset_datapoints i Omitted st e s l)"
    "same_call send self (Get_asset_datapoints i d (Passed (Some 0)) e s l)
                         (Get_asset_datapoints i d Omitted e s l)"
    "same_call send self (Get_asset_datapoints i d st (Passed (Some 0)) s l)
                         (Get_asset_datapoints i d st Omitted s l)"
    "same_call send self (Get_truck_tickets (Passed (Some '''')) t st e)
                         (Get_truck_tickets Omitted t st e)"
    "same_call send self (Get_truck_tickets f (Passed (Some '''')) st e)
                         (Get_truck_tickets f Omitted st e)"
    "same_call send self (Get_truck_tickets f t (Passed (Some 0)) e)
                         (Get_truck_tickets f t Omitted e)"
    "same_call send self (Get_truck_tickets f t st (Passed (Some 0)))
                         (Get_truck_tickets f t st Omitted)"
    by (simp_all add: same_call_def datapoints asset_datapoints truck_tickets
        get_datapoints_def get_datapoints_request_def get_asset_datapoints_def
        get_asset_datapoints_request_def get_truck_tickets_def get_truck_tickets_request_def)
  have same_path:
    "same_call send self (Get_alarm i (Passed (Some ''''))) (Get_alarm i Omitted)"
    "same_call send self (Get_datatypes (Passed (Some ''''))) (Get_datatypes Omitted)"
    by (simp_all add: same_call_def get_alarm_def get_alarm_request_def get_datatypes_def
        get_datatypes_request_def)
  have same_filter:
    "same_call send self (Get_assets ty (Passed (Some '''')) at) (Get_assets ty Omitted at)"
    "same_call send self (Get_swd_networks (Passed (Some ''''))) (Get_swd_networks Omitted)"
    by (simp_all add: same_call_def get_assets_def get_swd_networks_def Let_def
        cong: sum.case_cong)
  have header:
    "get_headers (self\<lparr>self_customer_id := Some ''''\<rparr>)
       = [(''authorization'', Bearer (self_token self))]"
    by (simp add: get_headers_def)
  have customer:
    "request_of (self\<lparr>self_customer_id := Some ''''\<rparr>) op
       = request_of (self\<lparr>self_customer_id := None\<rparr>) op"
    by (rule request_of_empty_customer_id)
  then have customer_outcome:
    "perform send (self\<lparr>self_customer_id := Some ''''\<rparr>) op
       = perform send (self\<lparr>self_customer_id := None\<rparr>) op"
    by (rule perform_request_of)
  have not_sent:
    "''sort'' \<notin>
       set (payload_keys (request_of self (Get_datapoints a st e (Passed (Some '''')) l)))"
    "''limit'' \<notin>
       set (payload_keys (request_of self (Get_datapoints a st e s (Passed (Some 0)))))"
    "''sort'' \<notin>
       set (payload_keys
              (request_of self (Get_asset_datapoints i d st e (Passed (Some '''')) l)))"
    "''limit'' \<notin>
       set (payload_keys
              (request_of self (Get_asset_datapoints i d st e s (Passed (Some 0)))))"
    by (simp_all add: payload_keys_Get_datapoints keys_get_datapoints_body
        payload_keys_Get_asset_datapoints keys_get_asset_datapoints_params)
  have asset_type_request:
    "request_of self (Get_assets ty f (Passed (Some '''')))
       = request_of self (Get_assets ty f Omitted)"
    by simp
  have asset_type_200:
    "status_code (send (get_assets_request self ty)) = 200 \<longrightarrow>
       perform send self (Get_assets ty f (Passed (Some '''')))
         = perform send self (Get_assets ty f Omitted)"
    by (simp add: get_assets_def Let_def cong: sum.case_cong)
  have asset_type_failure:
    "status_code (send (get_assets_request self ty)) \<noteq> 200 \<longrightarrow>
       perform send self (Get_assets ty f (Passed (Some '''')))
         = Inl (Client_Exception ''Unable to retrieve assets of type '')
       \<and> perform send self (Get_assets ty f Omitted)
         = Inl (Client_Exception ''Unable to retrieve assets of type None'')"
    by (simp add: get_assets_def Let_def)
  from same_keys same_path same_filter header customer customer_outcome not_sent
    asset_type_request asset_type_200 asset_type_failure
  show ?thesis by (intro conjI)
qed

theorem falsy_arguments_not_sent_witness:
  "status_code (mock_server (list_response [PDict [(''asset_type'', PStr ''well'')]])
       (get_assets_request client0 Omitted)) = 200
   \<and> perform (mock_server (list_response [PDict [(''asset_type'', PStr ''well'')]])) client0
       (Get_assets Omitted Omitted (Passed (Some '''')))
     = perform (mock_server (list_response [PDict [(''asset_type'', PStr ''well'')]])) client0
       (Get_assets Omitted Omitted Omitted)
   \<and> status_code (mock_server \<lparr>status_code = 500, json_body = None\<rparr>
       (get_assets_request client0 Omitted)) \<noteq> 200
   \<and> perform (mock_server \<lparr>status_code = 500, json_body = None\<rparr>) client0
       (Get_assets Omitted Omitted (Passed (Some '''')))
     = Inl (Client_Exception ''Unable to retrieve assets of type '')
   \<and> perform (mock_server \<lparr>status_code = 500, json_body = None\<rparr>) client0
       (Get_assets Omitted Omitted Omitted)
     = Inl (Client_Exception ''Unable to retrieve assets of type None'')"
proof -
  let ?found = "mock_server (list_response [PDict [(''asset_type'', PStr ''well'')]])"
  let ?failed = "mock_server \<lparr>status_code = 500, json_body = None\<rparr>"
  have ok: "status_code (?found (get_assets_request client0 Omitted)) = 200"
    by (simp add: mock_server_def list_response_def)
  have failure: "status_code (?failed (get_assets_request client0 Omitted)) \<noteq> 200"
    by (simp add: mock_server_def)
  from ok
    falsy_arguments_not_sent
      [where send = "?found" and self = client0 and ty = Omitted and f = Omitted]
  have same:
    "perform ?found client0 (Get_assets Omitted Omitted (Passed (Some '''')))
       = perform ?found client0 (Get_assets Omitted Omitted Omitted)"
    by blast
  from failure
    falsy_arguments_not_sent
      [where send = "?failed" and self = client0 and ty = Omitted and f = Omitted]
  have messages:
    "perform ?failed client0 (Get_assets Omitted Omitted (Passed (Some '''')))
       = Inl (Client_Exception ''Unable to retrieve assets of type '')
     \<and> perform ?failed client0 (Get_assets Omitted Omitted Omitted)
       = Inl (Client_Exception ''Unable to retrieve assets of type None'')"
    by blast
  from ok same failure messages show ?thesis by blast
qed

end
